theory Spec2Isabelle
  imports Main "HOL-Library.Char_ord" "HOL-Library.List_Lexorder"
begin

section \<open>Dynamic metadata filtering: entity schema, extraction, filter construction\<close>

text \<open>
  The development follows the notebook \<^verbatim>\<open>dynamic_metadata_filtering_kb.ipynb\<close>:
  the pydantic models \<^verbatim>\<open>Entity\<close> and \<^verbatim>\<open>ExtractedEntities\<close> (with the
  pre-validator \<^verbatim>\<open>remove_duplicates\<close>), and the functions
  \<^verbatim>\<open>extract_entities\<close>, \<^verbatim>\<open>construct_metadata_filter\<close> and
  \<^verbatim>\<open>process_query\<close>.
\<close>

subsection \<open>Python values\<close>

text \<open>
  The values a field of an extracted entity can hold: the JSON scalars of a tool-use
  payload as Python objects (\<^verbatim>\<open>None\<close>, \<^verbatim>\<open>bool\<close>, \<^verbatim>\<open>int\<close>,
  \<^verbatim>\<open>str\<close>), all of them hashable. Python integers are unbounded, hence
  \<^typ>\<open>int\<close>. Floating-point numbers and nested arrays or objects as field values
  are outside the model.
\<close>

datatype pyval = PyNone | PyBool bool | PyInt int | PyStr string

datatype py_error = ValueError | TypeError | ValidationError | TransportError

text \<open>Truth value testing, as done by \<^verbatim>\<open>if x\<close>, \<^verbatim>\<open>x and y\<close>, \<^verbatim>\<open>not x\<close>.\<close>

fun truthy :: "pyval \<Rightarrow> bool" where
  "truthy PyNone = False"
| "truthy (PyBool b) = b"
| "truthy (PyInt i) = (i \<noteq> 0)"
| "truthy (PyStr s) = (s \<noteq> [])"

text \<open>
  The numeric reading of a value: \<^verbatim>\<open>bool\<close> is a subclass of \<^verbatim>\<open>int\<close>, with
  \<^verbatim>\<open>True == 1\<close> and \<^verbatim>\<open>False == 0\<close>.
\<close>

fun py_num :: "pyval \<Rightarrow> int option" where
  "py_num (PyBool b) = Some (if b then 1 else 0)"
| "py_num (PyInt i) = Some i"
| "py_num _ = None"

text \<open>Python's \<^verbatim>\<open>==\<close> and \<^verbatim>\<open>!=\<close> on these values.\<close>

fun py_eq :: "pyval \<Rightarrow> pyval \<Rightarrow> bool" where
  "py_eq PyNone PyNone = True"
| "py_eq (PyStr s) (PyStr t) = (s = t)"
| "py_eq a b = (case (py_num a, py_num b) of (Some i, Some j) \<Rightarrow> i = j | _ \<Rightarrow> False)"

definition py_ne :: "pyval \<Rightarrow> pyval \<Rightarrow> bool" where
  "py_ne a b = (\<not> py_eq a b)"

text \<open>
  The built-in \<^verbatim>\<open>int(x)\<close>. On an \<^verbatim>\<open>int\<close> it is the identity, on a
  \<^verbatim>\<open>bool\<close> it gives 0 or 1, on \<^verbatim>\<open>None\<close> it raises \<^verbatim>\<open>TypeError\<close>. On a
  \<^verbatim>\<open>str\<close> it parses a numeral or raises \<^verbatim>\<open>ValueError\<close>; the parser is the
  parameter \<open>int_str\<close>, with \<open>None\<close> for a string that \<^verbatim>\<open>int\<close> rejects.
\<close>

fun py_int :: "(string \<Rightarrow> int option) \<Rightarrow> pyval \<Rightarrow> py_error + int" where
  "py_int int_str PyNone = Inl TypeError"
| "py_int int_str (PyBool b) = Inr (if b then 1 else 0)"
| "py_int int_str (PyInt i) = Inr i"
| "py_int int_str (PyStr s) = (case int_str s of None \<Rightarrow> Inl ValueError | Some i \<Rightarrow> Inr i)"

text \<open>
  A concrete string parser for evaluating examples. It accepts exactly an optional sign
  followed by one or more ASCII digits and gives the number that \<^verbatim>\<open>int\<close> gives
  for such a string. It is stricter than \<^verbatim>\<open>int\<close>, which also accepts
  surrounding whitespace, underscores between digits and non-ASCII digits, so it is not a
  model of \<^verbatim>\<open>int\<close>: the theorems take the parser as a parameter, and the
  examples apply this one only to the string \<^verbatim>\<open>"next year"\<close>, which
  \<^verbatim>\<open>int\<close> rejects with \<^verbatim>\<open>ValueError\<close> as well.
\<close>

definition digit_val :: "char \<Rightarrow> int option" where
  "digit_val c =
     (if CHR ''0'' \<le> c \<and> c \<le> CHR ''9'' then Some (int (of_char c) - 48) else None)"

fun digits_int :: "int \<Rightarrow> string \<Rightarrow> int option" where
  "digits_int acc [] = Some acc"
| "digits_int acc (c # cs) =
     (case digit_val c of None \<Rightarrow> None | Some d \<Rightarrow> digits_int (10 * acc + d) cs)"

fun decimal_int :: "string \<Rightarrow> int option" where
  "decimal_int [] = None"
| "decimal_int (c # cs) =
     (if c = CHR ''-'' then (if cs = [] then None else map_option uminus (digits_int 0 cs))
      else if c = CHR ''+'' then (if cs = [] then None else digits_int 0 cs)
      else digits_int 0 (c # cs))"

subsection \<open>Entity schema\<close>

text \<open>
  \<^verbatim>\<open>class Entity(BaseModel): Publisher: Optional[str]; Year: Optional[int]\<close>.
  The filter compiler reads the two attributes without looking at their types (it
  compares \<^verbatim>\<open>entity.Year\<close> with the string \<^verbatim>\<open>'unknown'\<close> and applies
  \<^verbatim>\<open>int\<close> to it), so an entity is modelled with dynamically typed attributes; the
  declared annotations are the predicate \<open>Entity_typed\<close>.
\<close>

record Entity =
  Publisher :: pyval
  Year :: pyval

fun is_optional_str :: "pyval \<Rightarrow> bool" where
  "is_optional_str PyNone = True"
| "is_optional_str (PyStr s) = True"
| "is_optional_str _ = False"

fun is_optional_int :: "pyval \<Rightarrow> bool" where
  "is_optional_int PyNone = True"
| "is_optional_int (PyInt i) = True"
| "is_optional_int _ = False"

definition Entity_typed :: "Entity \<Rightarrow> bool" where
  "Entity_typed e = (is_optional_str (Publisher e) \<and> is_optional_int (Year e))"

record ExtractedEntities =
  entities :: "Entity list"

subsection \<open>Metadata filter\<close>

text \<open>
  The filter dictionary \<^verbatim>\<open>{"andAll": [...]}\<close> whose children are
  \<^verbatim>\<open>{"equals": {"key": k, "value": v}}\<close> and
  \<^verbatim>\<open>{"greaterThanOrEquals": {"key": k, "value": n}}\<close>.
\<close>

datatype predicate =
    Equals (key: string) (eq_value: pyval)
  | GreaterThanOrEquals (key: string) (ge_value: int)

datatype metadata_filter = AndAll (andAll: "predicate list")

text \<open>\<^verbatim>\<open>return metadata_filter if metadata_filter["andAll"] else None\<close>\<close>

definition filter_or_None :: "predicate list \<Rightarrow> metadata_filter option" where
  "filter_or_None children = (if children \<noteq> [] then Some (AndAll children) else None)"

text \<open>
  \<^verbatim>\<open>construct_metadata_filter(extracted_entities)\<close>. The argument is \<open>None\<close> or
  an \<^verbatim>\<open>ExtractedEntities\<close> object (a pydantic model instance is always truthy, so
  \<^verbatim>\<open>not extracted_entities\<close> holds for \<^verbatim>\<open>None\<close> only). The result is
  \<open>Inl\<close> of the exception raised, or \<open>Inr\<close> of the returned value, where \<open>None\<close>
  is Python's \<^verbatim>\<open>None\<close>.
\<close>

definition construct_metadata_filter ::
  "(string \<Rightarrow> int option) \<Rightarrow> ExtractedEntities option \<Rightarrow> py_error + metadata_filter option"
where
  "construct_metadata_filter int_str extracted_entities =
     (case extracted_entities of
        None \<Rightarrow> Inr None
      | Some ee \<Rightarrow>
          (case entities ee of
             [] \<Rightarrow> Inr None
           | entity # _ \<Rightarrow>
               (let children0 = [];
                    children1 =
                      (if truthy (Publisher entity) \<and> py_ne (Publisher entity) (PyStr ''unknown'')
                       then children0 @ [Equals ''Publisher'' (Publisher entity)]
                       else children0)
                in if truthy (Year entity) \<and> py_ne (Year entity) (PyStr ''unknown'')
                   then (case py_int int_str (Year entity) of
                           Inl err \<Rightarrow> Inl err
                         | Inr y \<Rightarrow>
                             Inr (filter_or_None (children1 @ [GreaterThanOrEquals ''Year'' y])))
                   else Inr (filter_or_None children1))))"

text \<open>
  The predicates of a returned filter that constrain the field \<open>k\<close>; the returned
  value \<open>None\<close> carries none.
\<close>

fun field_predicates :: "string \<Rightarrow> metadata_filter option \<Rightarrow> predicate list" where
  "field_predicates k None = []"
| "field_predicates k (Some (AndAll children)) = filter (\<lambda>p. key p = k) children"

subsection \<open>Deduplication of entity payloads\<close>

text \<open>
  The pre-validator \<^verbatim>\<open>ExtractedEntities.remove_duplicates\<close> receives the raw
  list of entity payloads. A payload is a dictionary from field names to scalar values,
  kept as an association list in insertion order; a dictionary has no repeated key, which
  is the predicate \<open>dict_ok\<close>.
\<close>

type_synonym item = "string \<times> pyval"
type_synonym entity_dict = "item list"

definition dict_ok :: "entity_dict \<Rightarrow> bool" where
  "dict_ok d = distinct (map fst d)"

text \<open>
  \<^verbatim>\<open>sorted(entity.items())\<close>: the items are pairs and the keys of a dictionary
  are pairwise different, so the comparison of two items is decided by their keys.
\<close>

definition sorted_items :: "entity_dict \<Rightarrow> item list" where
  "sorted_items entity = sort_key fst entity"

text \<open>Equality of items and of tuples of items, as \<^verbatim>\<open>==\<close> computes it.\<close>

definition item_eq :: "item \<Rightarrow> item \<Rightarrow> bool" where
  "item_eq a b = (fst a = fst b \<and> py_eq (snd a) (snd b))"

definition tuple_eq :: "item list \<Rightarrow> item list \<Rightarrow> bool" where
  "tuple_eq xs ys = list_all2 item_eq xs ys"

text \<open>\<^verbatim>\<open>entity_tuple in seen\<close>, for the set \<^verbatim>\<open>seen\<close> of tuples.\<close>

definition tuple_in :: "item list \<Rightarrow> item list set \<Rightarrow> bool" where
  "tuple_in t seen = (\<exists>u\<in>seen. tuple_eq t u)"

text \<open>
  The loop of \<^verbatim>\<open>remove_duplicates\<close>, with the two local variables
  \<^verbatim>\<open>unique_entities\<close> and \<^verbatim>\<open>seen\<close> passed along.
  \<^verbatim>\<open>dict(entity_tuple)\<close> is the dictionary holding the items in sorted order.
\<close>

fun remove_duplicates_loop ::
  "entity_dict list \<Rightarrow> entity_dict list \<Rightarrow> item list set \<Rightarrow> entity_dict list"
where
  "remove_duplicates_loop [] unique_entities seen = unique_entities"
| "remove_duplicates_loop (entity # rest) unique_entities seen =
     (let entity_tuple = sorted_items entity
      in if \<not> tuple_in entity_tuple seen
         then remove_duplicates_loop rest (unique_entities @ [entity_tuple])
                (insert entity_tuple seen)
         else remove_duplicates_loop rest unique_entities seen)"

definition remove_duplicates :: "entity_dict list \<Rightarrow> entity_dict list" where
  "remove_duplicates entities_raw = remove_duplicates_loop entities_raw [] {}"

text \<open>
  The specification's reading of deduplication, for comparison with the loop. Two
  payloads are structural duplicates when they hold the same field-value pairs, in any
  field order; \<open>first_occurrences\<close> keeps a payload exactly when none of the payloads
  before it in the input is a duplicate of it.
\<close>

definition same_fields :: "entity_dict \<Rightarrow> entity_dict \<Rightarrow> bool" where
  "same_fields d1 d2 =
     (list_all (\<lambda>a. list_ex (item_eq a) d2) d1 \<and> list_all (\<lambda>b. list_ex (\<lambda>a. item_eq a b) d1) d2)"

fun first_occurrences :: "entity_dict list \<Rightarrow> entity_dict list \<Rightarrow> entity_dict list" where
  "first_occurrences earlier [] = []"
| "first_occurrences earlier (d # ds) =
     (if list_ex (same_fields d) earlier then first_occurrences (earlier @ [d]) ds
      else d # first_occurrences (earlier @ [d]) ds)"

subsection \<open>Entity extraction\<close>

text \<open>
  The content blocks of a Converse response message. A block is a dictionary holding
  one of the keys \<^verbatim>\<open>text\<close>, \<^verbatim>\<open>toolUse\<close> or another kind; a
  \<^verbatim>\<open>toolUse\<close> block carries the tool's name and its structured input. The input
  of the extraction tool is a JSON object whose properties are arrays of entity payloads.
\<close>

type_synonym tool_input = "(string \<times> entity_dict list) list"

record toolUse =
  toolUseId :: string
  name :: string
  input :: tool_input

datatype content = Text string | ToolUse toolUse | OtherBlock string

text \<open>
  \<^verbatim>\<open>"toolUse" in content and content['toolUse']['name'] == "extract_entities"\<close>
\<close>

fun is_extract_tool_use :: "content \<Rightarrow> bool" where
  "is_extract_tool_use (ToolUse tu) = (name tu = ''extract_entities'')"
| "is_extract_tool_use _ = False"

text \<open>
  The \<^verbatim>\<open>for\<close> loop over the content blocks, started with
  \<^verbatim>\<open>json_entities = None\<close>; it stops (\<^verbatim>\<open>break\<close>) at the first match.
\<close>

fun scan_content :: "content list \<Rightarrow> tool_input option" where
  "scan_content [] = None"
| "scan_content (ToolUse tu # rest) =
     (if name tu = ''extract_entities'' then Some (input tu) else scan_content rest)"
| "scan_content (_ # rest) = scan_content rest"

text \<open>
  \<^verbatim>\<open>extract_entities(text, tool_properties)\<close>. The model call
  \<^verbatim>\<open>bedrock.converse\<close> is the parameter \<open>bedrock_converse\<close>, giving the content blocks
  of the response or the exception it raises; \<^verbatim>\<open>ExtractedEntities.parse_obj\<close> is the
  parameter \<open>parse_obj\<close>, giving the validated object or the validation error.
  A dictionary is falsy exactly when it is empty.
\<close>

definition extract_entities ::
  "('t \<Rightarrow> string \<Rightarrow> py_error + content list) \<Rightarrow> (tool_input \<Rightarrow> py_error + ExtractedEntities) \<Rightarrow>
   string \<Rightarrow> 't \<Rightarrow> py_error + ExtractedEntities option"
where
  "extract_entities bedrock_converse parse_obj text tool_properties =
     (case bedrock_converse tool_properties text of
        Inl err \<Rightarrow> Inl err
      | Inr response_content \<Rightarrow>
          (case scan_content response_content of
             None \<Rightarrow> Inr None
           | Some json_entities \<Rightarrow>
               (if json_entities \<noteq> []
                then (case parse_obj json_entities of
                        Inl err \<Rightarrow> Inl err
                      | Inr extracted \<Rightarrow> Inr (Some extracted))
                else Inr None)))"

subsection \<open>Query processing\<close>

text \<open>
  The keyword arguments of \<^verbatim>\<open>bedrock_agent_runtime.retrieve\<close>. The dictionary
  \<^verbatim>\<open>vectorSearchConfiguration\<close> is an association list from its keys to their
  values; the value under \<^verbatim>\<open>"filter"\<close> is whatever the compiler returned, where
  \<open>None\<close> is Python's \<^verbatim>\<open>None\<close>.
\<close>

record retrieve_request =
  knowledgeBaseId :: string
  vectorSearchConfiguration :: "(string \<times> metadata_filter option) list"
  retrievalQuery_text :: string

definition retrieve_kwargs :: "string \<Rightarrow> string \<Rightarrow> metadata_filter option \<Rightarrow> retrieve_request" where
  "retrieve_kwargs kb_id text metadata_filter =
     \<lparr>knowledgeBaseId = kb_id,
      vectorSearchConfiguration = [(''filter'', metadata_filter)],
      retrievalQuery_text = text\<rparr>"

text \<open>
  \<^verbatim>\<open>process_query(text, tool_properties)\<close>; the retrieval call is the parameter
  \<open>retrieve\<close> and the global \<^verbatim>\<open>kb_id\<close> is an argument.
\<close>

definition process_query ::
  "('t \<Rightarrow> string \<Rightarrow> py_error + content list) \<Rightarrow> (tool_input \<Rightarrow> py_error + ExtractedEntities) \<Rightarrow>
   (string \<Rightarrow> int option) \<Rightarrow> (retrieve_request \<Rightarrow> py_error + 'r) \<Rightarrow> string \<Rightarrow>
   string \<Rightarrow> 't \<Rightarrow> py_error + 'r"
where
  "process_query bedrock_converse parse_obj int_str retrieve kb_id text tool_properties =
     (case extract_entities bedrock_converse parse_obj text tool_properties of
        Inl err \<Rightarrow> Inl err
      | Inr extracted_entities \<Rightarrow>
          (case construct_metadata_filter int_str extracted_entities of
             Inl err \<Rightarrow> Inl err
           | Inr metadata_filter \<Rightarrow> retrieve (retrieve_kwargs kb_id text metadata_filter)))"

subsection \<open>Concrete parameters for evaluating examples\<close>

text \<open>
  A model call that answers with the given content blocks, and a strict stand-in for
  validation. The stand-in looks up the two fields of each deduplicated payload and
  accepts the payloads whose values already have the declared types. It is not a model
  of pydantic: pydantic also converts some values (the string \<^verbatim>\<open>"2010"\<close> to the
  integer 2010, \<^verbatim>\<open>True\<close> to 1), and its versions differ on a field that is
  missing from the payload (version 1 takes it as \<^verbatim>\<open>None\<close>, as the stand-in
  does; version 2 rejects the payload). The theorems below take the model call and the
  validation as parameters; the examples apply the stand-in only to payloads that hold
  both fields, a string as Publisher, and as Year either an integer (accepted by pydantic
  as well) or the string \<^verbatim>\<open>"next year"\<close> (rejected by pydantic as well).
\<close>

definition converse_returning :: "content list \<Rightarrow> unit \<Rightarrow> string \<Rightarrow> py_error + content list" where
  "converse_returning blocks tool_properties text = Inr blocks"

definition entity_of_dict :: "entity_dict \<Rightarrow> Entity" where
  "entity_of_dict d =
     \<lparr>Publisher = (case map_of d ''Publisher'' of None \<Rightarrow> PyNone | Some v \<Rightarrow> v),
      Year = (case map_of d ''Year'' of None \<Rightarrow> PyNone | Some v \<Rightarrow> v)\<rparr>"

definition parse_obj_strict :: "tool_input \<Rightarrow> py_error + ExtractedEntities" where
  "parse_obj_strict obj =
     (case map_of obj ''entities'' of
        None \<Rightarrow> Inl ValidationError
      | Some entities_raw \<Rightarrow>
          (let es = map entity_of_dict (remove_duplicates entities_raw)
           in if list_all Entity_typed es then Inr \<lparr>entities = es\<rparr> else Inl ValidationError))"

section \<open>Properties of the filter compiler\<close>

lemma py_ne_unknown [simp]: "py_ne v (PyStr u) = (v \<noteq> PyStr u)"
  by (cases v) (auto simp: py_ne_def)

lemma filter_or_None_Some: "filter_or_None cs = Some f \<Longrightarrow> f = AndAll cs \<and> cs \<noteq> []"
  by (auto simp: filter_or_None_def split: if_splits)


text \<open>
  C1. Compiling the entity with Publisher "Rockstar Games" and Year 2010 yields the
  conjunction whose first child is the equality predicate on Publisher and whose second
  child is the greater-than-or-equals predicate on Year with value 2010, whatever the
  string parser is.
\<close>

theorem rockstar_2010_filter:
  "construct_metadata_filter int_str
     (Some \<lparr>entities = [\<lparr>Publisher = PyStr ''Rockstar Games'', Year = PyInt 2010\<rparr>]\<rparr>)
   = Inr (Some (AndAll [Equals ''Publisher'' (PyStr ''Rockstar Games''),
                        GreaterThanOrEquals ''Year'' 2010]))"
  by (simp add: construct_metadata_filter_def filter_or_None_def)

text \<open>
  C2, as amended. Whenever the first entity compiles to a result \<open>r\<close>, the number of
  predicates of \<open>r\<close> on a field is one if the field's value is truthy and different from
  the sentinel "unknown", and zero otherwise: zero for the sentinel, zero for an absent
  field (\<open>None\<close>), and also zero for a present but falsy value (the empty string, the
  integer 0, \<open>False\<close>).
\<close>

theorem sentinel_law:
  assumes "construct_metadata_filter int_str (Some \<lparr>entities = e # es\<rparr>) = Inr r"
  shows "length (field_predicates ''Publisher'' r) =
           (if truthy (Publisher e) \<and> Publisher e \<noteq> PyStr ''unknown'' then 1 else 0) \<and>
         length (field_predicates ''Year'' r) =
           (if truthy (Year e) \<and> Year e \<noteq> PyStr ''unknown'' then 1 else 0)"
  using assms
  by (auto simp: construct_metadata_filter_def filter_or_None_def Let_def
      split: if_splits sum.splits)

text \<open>
  The law at the entity with Publisher "unknown" and Year 2015: no predicate on Publisher,
  one on Year.
\<close>

theorem sentinel_law_witness:
  "length (field_predicates ''Publisher'' (Some (AndAll [GreaterThanOrEquals ''Year'' 2015]))) = 0 \<and>
   length (field_predicates ''Year'' (Some (AndAll [GreaterThanOrEquals ''Year'' 2015]))) = 1"
proof -
  have h: "construct_metadata_filter decimal_int
      (Some \<lparr>entities = [\<lparr>Publisher = PyStr ''unknown'', Year = PyInt 2015\<rparr>]\<rparr>)
      = Inr (Some (AndAll [GreaterThanOrEquals ''Year'' 2015]))"
    by (simp add: construct_metadata_filter_def filter_or_None_def)
  show ?thesis using sentinel_law [OF h] by simp
qed

text \<open>
  The claim as first stated (one predicate for every present value other than "unknown")
  fails at a Year that is present and equal to 0: the compiled filter has no predicate
  on Year.
\<close>

theorem sentinel_law_falsy_counterexample:
  "Year \<lparr>Publisher = PyStr ''Nintendo'', Year = PyInt 0\<rparr> \<noteq> PyNone \<and>
   Year \<lparr>Publisher = PyStr ''Nintendo'', Year = PyInt 0\<rparr> \<noteq> PyStr ''unknown'' \<and>
   construct_metadata_filter decimal_int
     (Some \<lparr>entities = [\<lparr>Publisher = PyStr ''Nintendo'', Year = PyInt 0\<rparr>]\<rparr>)
     = Inr (Some (AndAll [Equals ''Publisher'' (PyStr ''Nintendo'')])) \<and>
   length (field_predicates ''Year'' (Some (AndAll [Equals ''Publisher'' (PyStr ''Nintendo'')]))) = 0"
  by (simp add: construct_metadata_filter_def filter_or_None_def)

text \<open>
  C3. The compiler applied to \<open>None\<close>, and to an \<open>ExtractedEntities\<close> whose entity
  sequence is empty, returns \<open>None\<close>.
\<close>

theorem empty_input_no_filter:
  "construct_metadata_filter int_str None = Inr None \<and>
   construct_metadata_filter int_str (Some \<lparr>entities = []\<rparr>) = Inr None"
  by (simp add: construct_metadata_filter_def)

text \<open>
  C4. For every input, a returned filter has a non-empty list of children, and the
  compiler never returns the conjunction with zero children: that case is the value
  \<open>None\<close>.
\<close>

theorem no_empty_conjunction:
  "(construct_metadata_filter int_str extracted_entities = Inr (Some f) \<longrightarrow> andAll f \<noteq> []) \<and>
   construct_metadata_filter int_str extracted_entities \<noteq> Inr (Some (AndAll []))"
proof -
  have "andAll g \<noteq> []"
    if "construct_metadata_filter int_str extracted_entities = Inr (Some g)" for g
    using that
    by (auto simp: construct_metadata_filter_def Let_def
        split: option.splits list.splits if_splits sum.splits dest!: filter_or_None_Some)
  then show ?thesis by fastforce
qed

theorem no_empty_conjunction_witness:
  "andAll (AndAll [Equals ''Publisher'' (PyStr ''Rockstar Games''),
                   GreaterThanOrEquals ''Year'' 2010]) \<noteq> [] \<and>
   construct_metadata_filter decimal_int
     (Some \<lparr>entities = [\<lparr>Publisher = PyStr ''unknown'', Year = PyStr ''unknown''\<rparr>]\<rparr>)
     \<noteq> Inr (Some (AndAll []))"
proof -
  have h: "construct_metadata_filter decimal_int
     (Some \<lparr>entities = [\<lparr>Publisher = PyStr ''Rockstar Games'', Year = PyInt 2010\<rparr>]\<rparr>)
     = Inr (Some (AndAll [Equals ''Publisher'' (PyStr ''Rockstar Games''),
                          GreaterThanOrEquals ''Year'' 2010]))"
    by (simp add: construct_metadata_filter_def filter_or_None_def)
  from no_empty_conjunction
    [of decimal_int
        "Some \<lparr>entities = [\<lparr>Publisher = PyStr ''Rockstar Games'', Year = PyInt 2010\<rparr>]\<rparr>"
        "AndAll [Equals ''Publisher'' (PyStr ''Rockstar Games''),
                 GreaterThanOrEquals ''Year'' 2010]"] h
  have a: "andAll (AndAll [Equals ''Publisher'' (PyStr ''Rockstar Games''),
                   GreaterThanOrEquals ''Year'' 2010]) \<noteq> []"
    by blast
  from no_empty_conjunction
    [of decimal_int
        "Some \<lparr>entities = [\<lparr>Publisher = PyStr ''unknown'', Year = PyStr ''unknown''\<rparr>]\<rparr>"]
  have b: "construct_metadata_filter decimal_int
     (Some \<lparr>entities = [\<lparr>Publisher = PyStr ''unknown'', Year = PyStr ''unknown''\<rparr>]\<rparr>)
     \<noteq> Inr (Some (AndAll []))"
    by blast
  from a b show ?thesis by (rule conjI)
qed

text \<open>
  C5. The compiled filter depends on the first entity only: two entity sequences with
  the same first entity compile to the same result, whatever the later entities are
  (in particular for sequences of two or more entities).
\<close>

theorem first_entity_only:
  "construct_metadata_filter int_str (Some \<lparr>entities = e # later\<rparr>) =
   construct_metadata_filter int_str (Some \<lparr>entities = e # later'\<rparr>)"
  by (simp add: construct_metadata_filter_def)

text \<open>
  The compiler as a function of untyped attribute values: a Year that is a non-empty
  string other than "unknown" and that \<^verbatim>\<open>int\<close> cannot parse makes it raise
  \<^verbatim>\<open>ValueError\<close>. No \<^verbatim>\<open>Entity\<close> holds such a Year, by the declared
  type of the field.
\<close>

lemma untyped_year_raises:
  "Year e = PyStr s \<Longrightarrow> s \<noteq> [] \<Longrightarrow> s \<noteq> ''unknown'' \<Longrightarrow> int_str s = None \<Longrightarrow>
   construct_metadata_filter int_str (Some \<lparr>entities = e # es\<rparr>) = Inl ValueError"
  by (simp add: construct_metadata_filter_def)





text \<open>
  C10. The guards test truthiness: a first entity whose Year is the integer 0 compiles
  (no error) to a result with no predicate on Year; a first entity whose Publisher is
  the empty string yields no predicate on Publisher in any result; and the entity with
  Publisher "Rockstar Games" and Year 0 compiles to the filter holding the Publisher
  equality predicate alone.
\<close>

theorem truthiness_guards:
  "(Year e = PyInt 0 \<longrightarrow>
      (\<exists>r. construct_metadata_filter int_str (Some \<lparr>entities = e # es\<rparr>) = Inr r \<and>
           field_predicates ''Year'' r = [])) \<and>
   (Publisher e = PyStr [] \<longrightarrow>
      (\<forall>r. construct_metadata_filter int_str (Some \<lparr>entities = e # es\<rparr>) = Inr r \<longrightarrow>
           field_predicates ''Publisher'' r = [])) \<and>
   construct_metadata_filter int_str
     (Some \<lparr>entities = [\<lparr>Publisher = PyStr ''Rockstar Games'', Year = PyInt 0\<rparr>]\<rparr>)
     = Inr (Some (AndAll [Equals ''Publisher'' (PyStr ''Rockstar Games'')]))"
  by (auto simp: construct_metadata_filter_def filter_or_None_def Let_def
      split: if_splits sum.splits)

theorem truthiness_guards_witness:
  "\<exists>r. construct_metadata_filter decimal_int
         (Some \<lparr>entities = [\<lparr>Publisher = PyStr [], Year = PyInt 0\<rparr>]\<rparr>) = Inr r \<and>
       field_predicates ''Year'' r = [] \<and> field_predicates ''Publisher'' r = []"
  using truthiness_guards [of "\<lparr>Publisher = PyStr [], Year = PyInt 0\<rparr>" decimal_int "[]"]
  by auto

section \<open>Properties of deduplication\<close>

lemma py_eq_refl: "py_eq a a"
  by (cases a) auto

lemma py_eq_sym: "py_eq a b \<Longrightarrow> py_eq b a"
  by (cases a; cases b) (auto split: if_splits)

lemma py_eq_trans: "py_eq a b \<Longrightarrow> py_eq b c \<Longrightarrow> py_eq a c"
  by (cases a; cases b; cases c) (auto split: if_splits)

lemma item_eq_refl: "item_eq a a"
  by (simp add: item_eq_def py_eq_refl)

lemma item_eq_sym: "item_eq a b \<Longrightarrow> item_eq b a"
  by (auto simp: item_eq_def dest: py_eq_sym)

lemma item_eq_trans: "item_eq a b \<Longrightarrow> item_eq b c \<Longrightarrow> item_eq a c"
  by (auto simp: item_eq_def dest: py_eq_trans)

lemma same_fields_set:
  "same_fields d1 d2 =
     ((\<forall>a\<in>set d1. \<exists>b\<in>set d2. item_eq a b) \<and> (\<forall>b\<in>set d2. \<exists>a\<in>set d1. item_eq a b))"
  by (simp add: same_fields_def list_all_iff list_ex_iff)

lemma same_fields_reorder: "set d1 = set d2 \<Longrightarrow> same_fields d1 d2"
  unfolding same_fields_set using item_eq_refl by blast

lemma same_fields_refl: "same_fields d d"
  unfolding same_fields_set using item_eq_refl by blast

lemma same_fields_sym: "same_fields d1 d2 \<Longrightarrow> same_fields d2 d1"
  unfolding same_fields_set using item_eq_sym by blast

lemma same_fields_trans: "same_fields d1 d2 \<Longrightarrow> same_fields d2 d3 \<Longrightarrow> same_fields d1 d3"
  unfolding same_fields_set using item_eq_trans by blast

lemma set_sorted_items [simp]: "set (sorted_items d) = set d"
  by (simp add: sorted_items_def)

lemma same_fields_sorted_items [simp]:
  "same_fields (sorted_items a) b = same_fields a b"
  "same_fields a (sorted_items b) = same_fields a b"
  by (simp_all add: same_fields_set)

lemma tuple_eq_imp_same_fields: "tuple_eq xs ys \<Longrightarrow> same_fields xs ys"
  unfolding tuple_eq_def same_fields_set
  by (metis in_set_conv_nth list_all2_conv_all_nth)

lemma keys_sorted_items:
  assumes "dict_ok d"
  shows "sorted (map fst (sorted_items d))" and "distinct (map fst (sorted_items d))"
    and "set (map fst (sorted_items d)) = fst ` set d"
proof -
  show "sorted (map fst (sorted_items d))" by (simp add: sorted_items_def)
  from assms show "distinct (map fst (sorted_items d))"
    by (simp add: dict_ok_def sorted_items_def distinct_map)
  show "set (map fst (sorted_items d)) = fst ` set d" by simp
qed

lemma same_fields_keys: "same_fields d1 d2 \<Longrightarrow> fst ` set d1 = fst ` set d2"
  unfolding same_fields_set item_eq_def by force

lemma same_fields_imp_tuple_eq:
  assumes ok1: "dict_ok d1" and ok2: "dict_ok d2" and sf: "same_fields d1 d2"
  shows "tuple_eq (sorted_items d1) (sorted_items d2)"
proof -
  let ?s1 = "sorted_items d1" and ?s2 = "sorted_items d2"
  have keys: "map fst ?s1 = map fst ?s2"
    using keys_sorted_items [OF ok1] keys_sorted_items [OF ok2] same_fields_keys [OF sf]
    by (metis sorted_distinct_set_unique)
  then have len: "length ?s1 = length ?s2"
    by (metis length_map)
  have inj2: "inj_on fst (set d2)"
    using ok2 by (simp add: dict_ok_def distinct_map)
  have "item_eq (?s1 ! i) (?s2 ! i)" if i: "i < length ?s1" for i
  proof -
    have "?s1 ! i \<in> set d1" using i by (metis nth_mem set_sorted_items)
    then obtain b where b: "b \<in> set d2" "item_eq (?s1 ! i) b"
      using sf unfolding same_fields_set by blast
    have s2: "?s2 ! i \<in> set d2" using i len by (metis nth_mem set_sorted_items)
    have "fst (?s1 ! i) = fst (?s2 ! i)"
      using keys i len by (metis nth_map)
    with b have "fst b = fst (?s2 ! i)" by (simp add: item_eq_def)
    with inj2 b(1) s2 have "b = ?s2 ! i" by (auto dest: inj_onD)
    with b show ?thesis by simp
  qed
  with len show ?thesis
    by (simp add: tuple_eq_def list_all2_conv_all_nth)
qed

lemma tuple_eq_sorted_items:
  "dict_ok d1 \<Longrightarrow> dict_ok d2 \<Longrightarrow>
   tuple_eq (sorted_items d1) (sorted_items d2) = same_fields d1 d2"
  using same_fields_imp_tuple_eq tuple_eq_imp_same_fields same_fields_sorted_items by blast

lemma loop_first_occurrences:
  assumes "\<forall>d\<in>set rest. dict_ok d"
    and "\<forall>d. dict_ok d \<longrightarrow> tuple_in (sorted_items d) seen = list_ex (same_fields d) earlier"
  shows "remove_duplicates_loop rest unique_entities seen =
           unique_entities @ map sorted_items (first_occurrences earlier rest)"
  using assms
proof (induction rest arbitrary: unique_entities seen earlier)
  case Nil
  then show ?case by simp
next
  case (Cons d rest)
  have okd: "dict_ok d" using Cons.prems(1) by simp
  have okr: "\<forall>x\<in>set rest. dict_ok x" using Cons.prems(1) by simp
  have inv: "tuple_in (sorted_items d) seen = list_ex (same_fields d) earlier"
    using Cons.prems(2) okd by blast
  show ?case
  proof (cases "list_ex (same_fields d) earlier")
    case True
    have "\<forall>x. dict_ok x \<longrightarrow>
            tuple_in (sorted_items x) seen = list_ex (same_fields x) (earlier @ [d])"
    proof (intro allI impI)
      fix x assume okx: "dict_ok x"
      have "same_fields x d \<Longrightarrow> list_ex (same_fields x) earlier"
        using True same_fields_trans unfolding list_ex_iff by blast
      then show "tuple_in (sorted_items x) seen = list_ex (same_fields x) (earlier @ [d])"
        using Cons.prems(2) okx by auto
    qed
    from Cons.IH [OF okr this] True inv show ?thesis by simp
  next
    case False
    have "\<forall>x. dict_ok x \<longrightarrow>
            tuple_in (sorted_items x) (insert (sorted_items d) seen) =
            list_ex (same_fields x) (earlier @ [d])"
    proof (intro allI impI)
      fix x assume okx: "dict_ok x"
      have "tuple_in (sorted_items x) (insert (sorted_items d) seen) =
              (tuple_eq (sorted_items x) (sorted_items d) \<or> tuple_in (sorted_items x) seen)"
        by (simp add: tuple_in_def)
      then show "tuple_in (sorted_items x) (insert (sorted_items d) seen) =
            list_ex (same_fields x) (earlier @ [d])"
        using Cons.prems(2) okx okd tuple_eq_sorted_items by auto
    qed
    from Cons.IH [OF okr this] False inv show ?thesis by simp
  qed
qed

lemma first_occurrences_represent:
  "\<forall>d\<in>set ds. list_ex (same_fields d) earlier \<or>
               list_ex (same_fields d) (first_occurrences earlier ds)"
proof (induction ds arbitrary: earlier)
  case Nil
  then show ?case by simp
next
  case (Cons d ds)
  show ?case
  proof
    fix x assume x: "x \<in> set (d # ds)"
    show "list_ex (same_fields x) earlier \<or>
          list_ex (same_fields x) (first_occurrences earlier (d # ds))"
    proof (cases "x = d")
      case True
      then show ?thesis using same_fields_refl by (auto simp: list_ex_iff)
    next
      case False
      with x have "x \<in> set ds" by simp
      with Cons.IH [of "earlier @ [d]"] have
        "list_ex (same_fields x) (earlier @ [d]) \<or>
         list_ex (same_fields x) (first_occurrences (earlier @ [d]) ds)" by blast
      then show ?thesis
        using same_fields_trans by (auto simp: list_ex_iff)
    qed
  qed
qed

lemma first_occurrences_different:
  "sorted_wrt (\<lambda>a b. \<not> same_fields a b) (first_occurrences earlier ds) \<and>
   (\<forall>u\<in>set (first_occurrences earlier ds). \<not> list_ex (same_fields u) earlier)"
proof (induction ds arbitrary: earlier)
  case Nil
  then show ?case by simp
next
  case (Cons d ds)
  from Cons.IH [of "earlier @ [d]"] show ?case
    using same_fields_sym by (auto simp: list_ex_iff)
qed


text \<open>
  C6. For every sequence of entity payloads (dictionaries, so without repeated keys),
  \<^verbatim>\<open>remove_duplicates\<close> keeps exactly the first occurrences: its result is the
  sequence of those payloads that have no structural duplicate (same field-value pairs,
  in any field order) earlier in the input, each with its items in sorted key order.
  Hence every input payload has a representative in the result, and no two entries of
  the result are structural duplicates of each other.
\<close>

theorem remove_duplicates_first_occurrence:
  assumes "\<forall>d\<in>set entities_raw. dict_ok d"
  shows "remove_duplicates entities_raw = map sorted_items (first_occurrences [] entities_raw) \<and>
         (\<forall>d\<in>set entities_raw. \<exists>u\<in>set (remove_duplicates entities_raw). same_fields d u) \<and>
         (\<forall>i j. i < j \<and> j < length (remove_duplicates entities_raw) \<longrightarrow>
            \<not> same_fields (remove_duplicates entities_raw ! i) (remove_duplicates entities_raw ! j))"
proof -
  let ?out = "remove_duplicates entities_raw"
  let ?kept = "first_occurrences [] entities_raw"
  have "\<forall>d. dict_ok d \<longrightarrow> tuple_in (sorted_items d) {} = list_ex (same_fields d) []"
    by (simp add: tuple_in_def)
  from loop_first_occurrences [OF assms this, of "[]"]
  have eq: "?out = map sorted_items ?kept"
    by (simp add: remove_duplicates_def)
  have rep: "\<forall>d\<in>set entities_raw. \<exists>u\<in>set ?out. same_fields d u"
  proof
    fix d assume "d \<in> set entities_raw"
    with first_occurrences_represent [of entities_raw "[]"]
    obtain k where "k \<in> set ?kept" "same_fields d k"
      by (auto simp: list_ex_iff)
    then have "sorted_items k \<in> set ?out" "same_fields d (sorted_items k)"
      using eq by simp_all
    then show "\<exists>u\<in>set ?out. same_fields d u" by blast
  qed
  have "sorted_wrt (\<lambda>a b. \<not> same_fields a b) ?kept"
    using first_occurrences_different [of "[]" entities_raw] by blast
  then have "sorted_wrt (\<lambda>a b. \<not> same_fields a b) ?out"
    by (simp add: eq sorted_wrt_map)
  then have diff: "\<forall>i j. i < j \<and> j < length ?out \<longrightarrow> \<not> same_fields (?out ! i) (?out ! j)"
    by (simp add: sorted_wrt_iff_nth_less)
  from eq rep diff show ?thesis by blast
qed

lemma dedup_example:
  "remove_duplicates
     [[(''Year'', PyInt 2010), (''Publisher'', PyStr ''Rockstar Games'')],
      [(''Publisher'', PyStr ''Rockstar Games''), (''Year'', PyInt 2010)],
      [(''Publisher'', PyStr ''Capcom''), (''Year'', PyInt 2015)]]
   = [[(''Publisher'', PyStr ''Rockstar Games''), (''Year'', PyInt 2010)],
      [(''Publisher'', PyStr ''Capcom''), (''Year'', PyInt 2015)]]"
  by (simp add: remove_duplicates_def sorted_items_def tuple_in_def tuple_eq_def item_eq_def)

theorem remove_duplicates_first_occurrence_witness:
  "map sorted_items
     (first_occurrences []
        [[(''Year'', PyInt 2010), (''Publisher'', PyStr ''Rockstar Games'')],
         [(''Publisher'', PyStr ''Rockstar Games''), (''Year'', PyInt 2010)],
         [(''Publisher'', PyStr ''Capcom''), (''Year'', PyInt 2015)]])
   = [[(''Publisher'', PyStr ''Rockstar Games''), (''Year'', PyInt 2010)],
      [(''Publisher'', PyStr ''Capcom''), (''Year'', PyInt 2015)]] \<and>
   \<not> same_fields [(''Publisher'', PyStr ''Rockstar Games''), (''Year'', PyInt 2010)]
       [(''Publisher'', PyStr ''Capcom''), (''Year'', PyInt 2015)]"
proof -
  let ?raw = "[[(''Year'', PyInt 2010), (''Publisher'', PyStr ''Rockstar Games'')],
      [(''Publisher'', PyStr ''Rockstar Games''), (''Year'', PyInt 2010)],
      [(''Publisher'', PyStr ''Capcom''), (''Year'', PyInt 2015)]]"
  have ok: "\<forall>d\<in>set ?raw. dict_ok d"
    by (simp add: dict_ok_def)
  have len: "(0::nat) < 1 \<and> 1 < length (remove_duplicates ?raw)"
    by (simp add: dedup_example)
  from remove_duplicates_first_occurrence [OF ok] have
    a: "remove_duplicates ?raw = map sorted_items (first_occurrences [] ?raw)" and
    b: "\<forall>i j. i < j \<and> j < length (remove_duplicates ?raw) \<longrightarrow>
            \<not> same_fields (remove_duplicates ?raw ! i) (remove_duplicates ?raw ! j)"
    by blast+
  from b len have "\<not> same_fields (remove_duplicates ?raw ! 0) (remove_duplicates ?raw ! 1)"
    by blast
  then have c: "\<not> same_fields [(''Publisher'', PyStr ''Rockstar Games''), (''Year'', PyInt 2010)]
       [(''Publisher'', PyStr ''Capcom''), (''Year'', PyInt 2015)]"
    by (simp add: dedup_example)
  have "map sorted_items (first_occurrences [] ?raw)
     = [[(''Publisher'', PyStr ''Rockstar Games''), (''Year'', PyInt 2010)],
      [(''Publisher'', PyStr ''Capcom''), (''Year'', PyInt 2015)]]"
    by (rule trans [OF a [symmetric] dedup_example])
  from this c show ?thesis by (rule conjI)
qed

section \<open>Properties of extraction and query processing\<close>

lemma scan_content_no_match:
  "\<not> list_ex is_extract_tool_use blocks \<Longrightarrow> scan_content blocks = None"
  by (induction blocks rule: scan_content.induct) auto

lemma scan_content_first_match:
  "\<not> list_ex is_extract_tool_use before \<Longrightarrow> name tu = ''extract_entities'' \<Longrightarrow>
   scan_content (before @ ToolUse tu # after) = Some (input tu)"
  by (induction before rule: scan_content.induct) auto

text \<open>
  C9. When the model call returns content blocks none of which is a tool-use block
  named \<^verbatim>\<open>extract_entities\<close>, the extractor returns \<open>None\<close> and raises nothing.
  When there is such a block, the input of the first one alone decides the result: it
  is the payload handed to validation (or, when it is an empty object, the result is
  \<open>None\<close>), whatever blocks come after it.
\<close>

theorem extract_entities_first_tool_use:
  "(bedrock_converse tool_properties text = Inr blocks \<and> \<not> list_ex is_extract_tool_use blocks
      \<longrightarrow> extract_entities bedrock_converse parse_obj text tool_properties = Inr None) \<and>
   (bedrock_converse tool_properties text = Inr (before @ ToolUse tu # after) \<and>
    \<not> list_ex is_extract_tool_use before \<and> name tu = ''extract_entities''
      \<longrightarrow> extract_entities bedrock_converse parse_obj text tool_properties =
          (if input tu \<noteq> []
           then (case parse_obj (input tu) of Inl err \<Rightarrow> Inl err | Inr ee \<Rightarrow> Inr (Some ee))
           else Inr None))"
  by (simp add: extract_entities_def scan_content_no_match scan_content_first_match)

theorem extract_entities_first_tool_use_witness:
  "extract_entities (converse_returning [Text ''Here are some games.'']) parse_obj_strict
     ''list all games'' () = Inr None \<and>
   extract_entities
     (converse_returning
        [Text ''Calling the tool.'',
         ToolUse \<lparr>toolUseId = ''t1'', name = ''extract_entities'',
           input = [(''entities'', [[(''Publisher'', PyStr ''Rockstar Games''), (''Year'', PyInt 2010)]])]\<rparr>,
         ToolUse \<lparr>toolUseId = ''t2'', name = ''extract_entities'',
           input = [(''entities'', [[(''Publisher'', PyStr ''Capcom'')]])]\<rparr>])
     parse_obj_strict ''games by Rockstar Games after 2010'' ()
   = Inr (Some \<lparr>entities = [\<lparr>Publisher = PyStr ''Rockstar Games'', Year = PyInt 2010\<rparr>]\<rparr>)"
proof -
  let ?tu = "\<lparr>toolUseId = ''t1'', name = ''extract_entities'',
           input = [(''entities'', [[(''Publisher'', PyStr ''Rockstar Games''), (''Year'', PyInt 2010)]])]\<rparr>"
  let ?after = "[ToolUse \<lparr>toolUseId = ''t2'', name = ''extract_entities'',
           input = [(''entities'', [[(''Publisher'', PyStr ''Capcom'')]])]\<rparr>]"
  have p: "parse_obj_strict (input ?tu) =
      Inr \<lparr>entities = [\<lparr>Publisher = PyStr ''Rockstar Games'', Year = PyInt 2010\<rparr>]\<rparr>"
    by (simp add: parse_obj_strict_def remove_duplicates_def sorted_items_def tuple_in_def
        entity_of_dict_def Entity_typed_def)
  have 1: "extract_entities (converse_returning [Text ''Here are some games.'']) parse_obj_strict
     ''list all games'' () = Inr None"
    using extract_entities_first_tool_use
      [of "converse_returning [Text ''Here are some games.'']" "()" "''list all games''"
          "[Text ''Here are some games.'']" parse_obj_strict]
    by (simp add: converse_returning_def)
  have 2: "extract_entities (converse_returning ([Text ''Calling the tool.''] @ ToolUse ?tu # ?after))
     parse_obj_strict ''games by Rockstar Games after 2010'' ()
     = Inr (Some \<lparr>entities = [\<lparr>Publisher = PyStr ''Rockstar Games'', Year = PyInt 2010\<rparr>]\<rparr>)"
    using extract_entities_first_tool_use
      [of "converse_returning ([Text ''Calling the tool.''] @ ToolUse ?tu # ?after)" "()"
          "''games by Rockstar Games after 2010''" _ parse_obj_strict
          "[Text ''Calling the tool.'']" ?tu ?after] p
    by (simp add: converse_returning_def)
  from 1 2 show ?thesis by simp
qed

text \<open>
  Whenever extraction returns and the compiler yields \<open>None\<close>, the retrieval call is
  made with a vector-search configuration whose only key is \<^verbatim>\<open>"filter"\<close>, bound
  to \<open>None\<close>.
\<close>

lemma none_filter_is_passed:
  assumes "extract_entities bedrock_converse parse_obj text tool_properties = Inr extracted"
    and "construct_metadata_filter int_str extracted = Inr None"
  shows "process_query bedrock_converse parse_obj int_str retrieve kb_id text tool_properties =
           retrieve \<lparr>knowledgeBaseId = kb_id,
                     vectorSearchConfiguration = [(''filter'', None)],
                     retrievalQuery_text = text\<rparr>"
  using assms by (simp add: process_query_def retrieve_kwargs_def)

text \<open>
  C7. The claim asks that the request carry no filter key when the compiler yields
  \<open>None\<close>. The code does not do so: when the model answers with a text block only,
  extraction returns \<open>None\<close>, the compiler yields \<open>None\<close>, and
  \<^verbatim>\<open>process_query\<close> calls the retrieval, whatever it is, with the vector-search
  configuration \<^verbatim>\<open>{"filter": None}\<close>: the key is present and bound to
  \<open>None\<close>, for every validation and every string parser.
\<close>

theorem text_only_reply_passes_filter_None:
  "process_query (converse_returning [Text reply]) parse_obj int_str retrieve kb_id text ()
   = retrieve \<lparr>knowledgeBaseId = kb_id,
               vectorSearchConfiguration = [(''filter'', None)],
               retrievalQuery_text = text\<rparr>"
proof -
  have "extract_entities (converse_returning [Text reply]) parse_obj text () = Inr None"
    by (simp add: extract_entities_def converse_returning_def)
  moreover have "construct_metadata_filter int_str None = Inr None"
    by (simp add: construct_metadata_filter_def)
  ultimately show ?thesis by (rule none_filter_is_passed)
qed

end
